theory Spec2Isabelle
  imports Main
begin

section \<open>Host-language values\<close>

text \<open>
  A shallow embedding of \<^verbatim>\<open>source/logboom.ts\<close>.  TypeScript strings are
  modelled as HOL strings; \<^verbatim>\<open>Level\<close> is a compile-time union of six string
  literals, and a string at run time, so it is a string here as well.
\<close>

type_synonym Level = string

text \<open>The only exception the code can raise: calling a value that is not a function.\<close>

datatype js_error = TypeError

text \<open>
  \<^verbatim>\<open>String.prototype.toLowerCase\<close> and \<^verbatim>\<open>toUpperCase\<close>, on the
  characters HOL strings have: the letters A-Z and a-z are mapped to each other
  and every other character is kept.
\<close>

definition toLowerCase_char :: "char \<Rightarrow> char" where
  "toLowerCase_char c =
     (case map_of (zip ''ABCDEFGHIJKLMNOPQRSTUVWXYZ'' ''abcdefghijklmnopqrstuvwxyz'') c of
        None \<Rightarrow> c
      | Some d \<Rightarrow> d)"

definition toUpperCase_char :: "char \<Rightarrow> char" where
  "toUpperCase_char c =
     (case map_of (zip ''abcdefghijklmnopqrstuvwxyz'' ''ABCDEFGHIJKLMNOPQRSTUVWXYZ'') c of
        None \<Rightarrow> c
      | Some d \<Rightarrow> d)"

definition toLowerCase :: "string \<Rightarrow> string" where
  "toLowerCase s = map toLowerCase_char s"

definition toUpperCase :: "string \<Rightarrow> string" where
  "toUpperCase s = map toUpperCase_char s"

text \<open>\<^verbatim>\<open>Array.prototype.indexOf\<close>: the first index holding the value, or -1.\<close>

fun indexOf_from :: "'a list \<Rightarrow> 'a \<Rightarrow> int \<Rightarrow> int" where
  "indexOf_from [] x i = - 1"
| "indexOf_from (y # ys) x i = (if y = x then i else indexOf_from ys x (i + 1))"

definition indexOf :: "'a list \<Rightarrow> 'a \<Rightarrow> int" where
  "indexOf xs x = indexOf_from xs x 0"

text \<open>Reading \<^verbatim>\<open>arr[i]\<close>: out of range the value is \<^verbatim>\<open>undefined\<close>.\<close>

definition array_get :: "'a list \<Rightarrow> int \<Rightarrow> 'a option" where
  "array_get xs i = (if 0 \<le> i \<and> i < int (length xs) then Some (xs ! nat i) else None)"

text \<open>
  The interface \<^verbatim>\<open>Error\<close> of the TypeScript library: \<^verbatim>\<open>stack\<close> is
  optional.  Concatenating an absent value to a string appends the text
  \<^verbatim>\<open>undefined\<close>.
\<close>

record Error =
  name :: string
  message :: string
  stack :: "string option"

definition string_of_optional :: "string option \<Rightarrow> string" where
  "string_of_optional v = (case v of None \<Rightarrow> ''undefined'' | Some s \<Rightarrow> s)"

section \<open>The world outside the logger\<close>

text \<open>
  What a call can observe and do: the clock (the text that
  \<^verbatim>\<open>new Date().toISOString()\<close> returns) and, in order, the writes to the
  console and to file streams.  A stream handle is the path it was opened on.
\<close>

type_synonym WriteStream = string

datatype io_event =
    ConsoleLog string
  | ConsoleError string
  | CreateWriteStream string
  | StreamWrite WriteStream string

record world =
  now_iso :: string
  trace :: "io_event list"

definition emit :: "io_event \<Rightarrow> world \<Rightarrow> world" where
  "emit ev w = w\<lparr>trace := trace w @ [ev]\<rparr>"

text \<open>The text appended to a stream by a sequence of events.\<close>

fun file_content :: "WriteStream \<Rightarrow> io_event list \<Rightarrow> string" where
  "file_content p [] = []"
| "file_content p (StreamWrite q s # evs) =
     (if q = p then s @ file_content p evs else file_content p evs)"
| "file_content p (_ # evs) = file_content p evs"

section \<open>LoggerMachine\<close>

record LoggerMachineOptions =
  level :: Level

record LoggerMachine =
  threshold :: int
  levels :: "Level list"

fun getLongestValue_loop :: "string list \<Rightarrow> string \<Rightarrow> string" where
  "getLongestValue_loop [] longest = longest"
| "getLongestValue_loop (subject # arr) longest =
     getLongestValue_loop arr (if length subject > length longest then subject else longest)"

definition getLongestValue :: "string list \<Rightarrow> string" where
  "getLongestValue arr = getLongestValue_loop arr []"

function rpad :: "string \<Rightarrow> nat \<Rightarrow> string" where
  "rpad subject len = (if length subject < len then rpad (subject @ '' '') len else subject)"
  by pat_completeness auto
termination
  by (relation "measure (\<lambda>(subject, len). len - length subject)") auto

declare rpad.simps [simp del]

definition getLevelNumber :: "'a LoggerMachine_scheme \<Rightarrow> Level \<Rightarrow> int" where
  "getLevelNumber this lvl = indexOf (levels this) (toLowerCase lvl)"

text \<open>The initial value of the field \<^verbatim>\<open>levels\<close>.\<close>

definition LoggerMachine_levels :: "Level list" where
  "LoggerMachine_levels = [''error'', ''warn'', ''info'', ''verbose'', ''debug'', ''silly'']"

text \<open>
  The constructor.  The field initialiser of \<^verbatim>\<open>levels\<close> runs first; the
  threshold, unset until then (0 stands for the unset field), is assigned from
  \<^verbatim>\<open>getLevelNumber\<close>.  No statement of the constructor raises.
\<close>

definition LoggerMachine_new :: "'a LoggerMachineOptions_scheme \<Rightarrow> js_error + LoggerMachine" where
  "LoggerMachine_new opts =
     (let this = \<lparr>threshold = 0, levels = LoggerMachine_levels\<rparr>
      in Inr (this\<lparr>threshold := getLevelNumber this (level opts)\<rparr>))"

definition timestamp :: "world \<Rightarrow> string" where
  "timestamp w = ''['' @ now_iso w @ ''] ''"

definition levelTag :: "'a LoggerMachine_scheme \<Rightarrow> Level \<Rightarrow> string" where
  "levelTag this lvl =
     rpad (''('' @ toUpperCase lvl @ '') '') (3 + length (getLongestValue (levels this)))"

definition LoggerMachine_formatError ::
    "'a LoggerMachine_scheme \<Rightarrow> Error \<Rightarrow> world \<Rightarrow> js_error + string" where
  "LoggerMachine_formatError this err w =
     Inr (timestamp w @ levelTag this ''error'' @ string_of_optional (stack err))"

definition LoggerMachine_formatMessage ::
    "'a LoggerMachine_scheme \<Rightarrow> Level \<Rightarrow> string \<Rightarrow> world \<Rightarrow> js_error + string" where
  "LoggerMachine_formatMessage this lvl msg w =
     Inr (timestamp w @ levelTag this lvl @ msg)"

text \<open>
  The methods a subclass supplies or overrides, resolved on the object's class:
  the two formatters and the two abstract sinks.  A method runs on the object and
  the world and returns both, or raises.
\<close>

record 'o methods =
  formatError :: "'o \<Rightarrow> Error \<Rightarrow> world \<Rightarrow> js_error + string"
  formatMessage :: "'o \<Rightarrow> Level \<Rightarrow> string \<Rightarrow> world \<Rightarrow> js_error + string"
  logErrorMessage :: "string \<Rightarrow> 'o \<times> world \<Rightarrow> js_error + 'o \<times> world"
  logMessage :: "string \<Rightarrow> 'o \<times> world \<Rightarrow> js_error + 'o \<times> world"

definition reportMessage ::
    "('a LoggerMachine_scheme) methods \<Rightarrow> Level \<Rightarrow> string \<Rightarrow>
     'a LoggerMachine_scheme \<times> world \<Rightarrow> js_error + 'a LoggerMachine_scheme \<times> world" where
  "reportMessage cls lvl msg st =
     (case st of (this, w) \<Rightarrow>
        if getLevelNumber this lvl \<le> threshold this
        then (case formatMessage cls this lvl msg w of
                Inl e \<Rightarrow> Inl e
              | Inr text \<Rightarrow> logMessage cls text st)
        else Inr st)"

definition error ::
    "('a LoggerMachine_scheme) methods \<Rightarrow> Error \<Rightarrow>
     'a LoggerMachine_scheme \<times> world \<Rightarrow> js_error + 'a LoggerMachine_scheme \<times> world" where
  "error cls err st =
     (case st of (this, w) \<Rightarrow>
        (case formatError cls this err w of
           Inl e \<Rightarrow> Inl e
         | Inr text \<Rightarrow> logErrorMessage cls text st))"

definition warn ::
    "('a LoggerMachine_scheme) methods \<Rightarrow> string \<Rightarrow>
     'a LoggerMachine_scheme \<times> world \<Rightarrow> js_error + 'a LoggerMachine_scheme \<times> world" where
  "warn cls msg st = reportMessage cls ''warn'' msg st"

definition info ::
    "('a LoggerMachine_scheme) methods \<Rightarrow> string \<Rightarrow>
     'a LoggerMachine_scheme \<times> world \<Rightarrow> js_error + 'a LoggerMachine_scheme \<times> world" where
  "info cls msg st = reportMessage cls ''info'' msg st"

definition verbose ::
    "('a LoggerMachine_scheme) methods \<Rightarrow> string \<Rightarrow>
     'a LoggerMachine_scheme \<times> world \<Rightarrow> js_error + 'a LoggerMachine_scheme \<times> world" where
  "verbose cls msg st = reportMessage cls ''verbose'' msg st"

definition debug ::
    "('a LoggerMachine_scheme) methods \<Rightarrow> string \<Rightarrow>
     'a LoggerMachine_scheme \<times> world \<Rightarrow> js_error + 'a LoggerMachine_scheme \<times> world" where
  "debug cls msg st = reportMessage cls ''debug'' msg st"

definition silly ::
    "('a LoggerMachine_scheme) methods \<Rightarrow> string \<Rightarrow>
     'a LoggerMachine_scheme \<times> world \<Rightarrow> js_error + 'a LoggerMachine_scheme \<times> world" where
  "silly cls msg st = reportMessage cls ''silly'' msg st"

text \<open>The five leveled methods of the public interface, each with its severity.\<close>

definition leveled ::
    "(Level \<times> (('a LoggerMachine_scheme) methods \<Rightarrow> string \<Rightarrow>
       'a LoggerMachine_scheme \<times> world \<Rightarrow> js_error + 'a LoggerMachine_scheme \<times> world)) list" where
  "leveled = [(''warn'', warn), (''info'', info), (''verbose'', verbose),
              (''debug'', debug), (''silly'', silly)]"

section \<open>ConsoleLogger\<close>

text \<open>
  \<^verbatim>\<open>chalk\<close> and \<^verbatim>\<open>stripAnsi\<close> are libraries the logger imports; they
  are parameters here.  \<open>chalk c\<close> is the styling function \<^verbatim>\<open>chalk[c]\<close>
  of the colour named \<open>c\<close>.
\<close>

type_synonym chalk_lib = "string \<Rightarrow> string \<Rightarrow> string"

record ConsoleLogger = LoggerMachine +
  colors :: "string list"

definition ConsoleLogger_colors :: "string list" where
  "ConsoleLogger_colors = [''red'', ''magenta'', ''cyan'', ''green'', ''blue'', ''gray'']"

definition ConsoleLogger_new :: "'a LoggerMachineOptions_scheme \<Rightarrow> js_error + ConsoleLogger" where
  "ConsoleLogger_new opts =
     (case LoggerMachine_new opts of
        Inl e \<Rightarrow> Inl e
      | Inr base \<Rightarrow>
          Inr \<lparr>threshold = threshold base, levels = levels base,
               colors = ConsoleLogger_colors\<rparr>)"

definition ConsoleLogger_formatError ::
    "chalk_lib \<Rightarrow> 'a ConsoleLogger_scheme \<Rightarrow> Error \<Rightarrow> world \<Rightarrow> js_error + string" where
  "ConsoleLogger_formatError chalk this err w =
     Inr (chalk ''yellow'' (timestamp w)
          @ chalk ''red'' (levelTag this ''error'' @ string_of_optional (stack err)))"

text \<open>
  The colour is read from the table at the level's number; where that is
  \<^verbatim>\<open>undefined\<close> so is the looked-up styling function, and calling it raises.
\<close>

definition ConsoleLogger_formatMessage ::
    "chalk_lib \<Rightarrow> 'a ConsoleLogger_scheme \<Rightarrow> Level \<Rightarrow> string \<Rightarrow> world \<Rightarrow> js_error + string" where
  "ConsoleLogger_formatMessage chalk this lvl msg w =
     (case array_get (colors this) (getLevelNumber this lvl) of
        None \<Rightarrow> Inl TypeError
      | Some color \<Rightarrow>
          Inr (chalk ''yellow'' (timestamp w) @ chalk color (levelTag this lvl @ msg)))"

definition ConsoleLogger_logErrorMessage ::
    "string \<Rightarrow> 'a ConsoleLogger_scheme \<times> world \<Rightarrow> js_error + 'a ConsoleLogger_scheme \<times> world" where
  "ConsoleLogger_logErrorMessage errorMessage st =
     (case st of (this, w) \<Rightarrow> Inr (this, emit (ConsoleError errorMessage) w))"

definition ConsoleLogger_logMessage ::
    "string \<Rightarrow> 'a ConsoleLogger_scheme \<times> world \<Rightarrow> js_error + 'a ConsoleLogger_scheme \<times> world" where
  "ConsoleLogger_logMessage msg st =
     (case st of (this, w) \<Rightarrow> Inr (this, emit (ConsoleLog msg) w))"

definition ConsoleLogger_class :: "chalk_lib \<Rightarrow> ('a ConsoleLogger_scheme) methods" where
  "ConsoleLogger_class chalk =
     \<lparr>formatError = ConsoleLogger_formatError chalk,
      formatMessage = ConsoleLogger_formatMessage chalk,
      logErrorMessage = ConsoleLogger_logErrorMessage,
      logMessage = ConsoleLogger_logMessage\<rparr>"

section \<open>FileLogger\<close>

record FileLoggerOptions = LoggerMachineOptions +
  logfile :: string
  eol_opt :: "string option"

record FileLogger = ConsoleLogger +
  stream :: WriteStream
  eol :: string

text \<open>
  The constructor: the default of \<^verbatim>\<open>eol\<close> is a newline; the stream is
  opened for appending and the line ending is written to it at once.
\<close>

definition FileLogger_new :: "FileLoggerOptions \<Rightarrow> world \<Rightarrow> js_error + FileLogger \<times> world" where
  "FileLogger_new opts w =
     (let e = (case eol_opt opts of None \<Rightarrow> [CHR 0x0A] | Some s \<Rightarrow> s) in
      case ConsoleLogger_new opts of
        Inl err \<Rightarrow> Inl err
      | Inr base \<Rightarrow>
          (let this = \<lparr>threshold = threshold base, levels = levels base, colors = colors base,
                       stream = logfile opts, eol = e\<rparr>;
               w1 = emit (CreateWriteStream (logfile opts)) w;
               w2 = emit (StreamWrite (stream this) e) w1
           in Inr (this, w2)))"

definition FileLogger_logErrorMessage ::
    "(string \<Rightarrow> string) \<Rightarrow> string \<Rightarrow> 'a FileLogger_scheme \<times> world \<Rightarrow>
     js_error + 'a FileLogger_scheme \<times> world" where
  "FileLogger_logErrorMessage stripAnsi errorMessage st =
     (case ConsoleLogger_logErrorMessage errorMessage st of
        Inl e \<Rightarrow> Inl e
      | Inr (this, w) \<Rightarrow>
          Inr (this, emit (StreamWrite (stream this) (stripAnsi errorMessage @ eol this)) w))"

definition FileLogger_logMessage ::
    "(string \<Rightarrow> string) \<Rightarrow> string \<Rightarrow> 'a FileLogger_scheme \<times> world \<Rightarrow>
     js_error + 'a FileLogger_scheme \<times> world" where
  "FileLogger_logMessage stripAnsi msg st =
     (case ConsoleLogger_logMessage msg st of
        Inl e \<Rightarrow> Inl e
      | Inr (this, w) \<Rightarrow>
          Inr (this, emit (StreamWrite (stream this) (stripAnsi msg @ eol this)) w))"

definition FileLogger_class ::
    "chalk_lib \<Rightarrow> (string \<Rightarrow> string) \<Rightarrow> ('a FileLogger_scheme) methods" where
  "FileLogger_class chalk stripAnsi =
     \<lparr>formatError = ConsoleLogger_formatError chalk,
      formatMessage = ConsoleLogger_formatMessage chalk,
      logErrorMessage = FileLogger_logErrorMessage stripAnsi,
      logMessage = FileLogger_logMessage stripAnsi\<rparr>"

text \<open>
  \<^verbatim>\<open>readme.md\<close> prints an earlier copy of the file, whose file sink writes the
  line ending before the text (and whose constructor writes nothing).  It is kept
  apart from the sink of \<^verbatim>\<open>source/logboom.ts\<close> above.
\<close>

definition FileLogger_logMessage_readme ::
    "(string \<Rightarrow> string) \<Rightarrow> string \<Rightarrow> 'a FileLogger_scheme \<times> world \<Rightarrow>
     js_error + 'a FileLogger_scheme \<times> world" where
  "FileLogger_logMessage_readme stripAnsi msg st =
     (case ConsoleLogger_logMessage msg st of
        Inl e \<Rightarrow> Inl e
      | Inr (this, w) \<Rightarrow>
          Inr (this, emit (StreamWrite (stream this) (eol this @ stripAnsi msg)) w))"

section \<open>Arguments outside the declared type\<close>

text \<open>
  The parameter of \<^verbatim>\<open>error\<close> is declared as \<^verbatim>\<open>Error\<close>, and nothing checks it
  at run time: a caller can pass \<^verbatim>\<open>undefined\<close>, \<^verbatim>\<open>null\<close> or an object.
  Both formatters read \<^verbatim>\<open>error.stack\<close> unguarded, and the read raises on
  \<^verbatim>\<open>undefined\<close> and \<^verbatim>\<open>null\<close>; \<^verbatim>\<open>error\<close> has no handler, so the sink is
  not reached.  The formatters and \<^verbatim>\<open>error\<close> on such a value:
\<close>

datatype js_value = JsUndefined | JsNull | JsObject Error

definition get_stack :: "js_value \<Rightarrow> js_error + string option" where
  "get_stack v = (case v of JsObject err \<Rightarrow> Inr (stack err) | _ \<Rightarrow> Inl TypeError)"

definition LoggerMachine_formatError_value ::
    "'a LoggerMachine_scheme \<Rightarrow> js_value \<Rightarrow> world \<Rightarrow> js_error + string" where
  "LoggerMachine_formatError_value this v w =
     (case get_stack v of
        Inl e \<Rightarrow> Inl e
      | Inr s \<Rightarrow> Inr (timestamp w @ levelTag this ''error'' @ string_of_optional s))"

definition ConsoleLogger_formatError_value ::
    "chalk_lib \<Rightarrow> 'a ConsoleLogger_scheme \<Rightarrow> js_value \<Rightarrow> world \<Rightarrow> js_error + string" where
  "ConsoleLogger_formatError_value chalk this v w =
     (case get_stack v of
        Inl e \<Rightarrow> Inl e
      | Inr s \<Rightarrow>
          Inr (chalk ''yellow'' (timestamp w)
               @ chalk ''red'' (levelTag this ''error'' @ string_of_optional s)))"

definition error_value ::
    "('o \<Rightarrow> js_value \<Rightarrow> world \<Rightarrow> js_error + string) \<Rightarrow>
     (string \<Rightarrow> 'o \<times> world \<Rightarrow> js_error + 'o \<times> world) \<Rightarrow>
     js_value \<Rightarrow> 'o \<times> world \<Rightarrow> js_error + 'o \<times> world" where
  "error_value formatError_v logErrorMessage_v v st =
     (case st of (this, w) \<Rightarrow>
        (case formatError_v this v w of
           Inl e \<Rightarrow> Inl e
         | Inr text \<Rightarrow> logErrorMessage_v text st))"

section \<open>Example values\<close>

text \<open>
  Concrete inputs on which the definitions above are evaluated further down.  The
  three loggers are the objects the constructors return for the level ''warn''
  (\<open>example_objects_constructed\<close> below).
\<close>

definition example_world :: world where
  "example_world = \<lparr>now_iso = ''2018-03-04T05:06:07.089Z'', trace = []\<rparr>"

definition example_logger :: LoggerMachine where
  "example_logger = \<lparr>threshold = 1, levels = LoggerMachine_levels\<rparr>"

text \<open>
  An instance of the two library parameters: the escape codes of the sixteen-colour
  palette around the text, and the removal of every escape sequence.
\<close>

definition chalk_basic :: chalk_lib where
  "chalk_basic color s =
     (case map_of [(''red'', ''31''), (''green'', ''32''), (''yellow'', ''33''), (''blue'', ''34''),
                   (''magenta'', ''35''), (''cyan'', ''36''), (''gray'', ''90'')] color of
        None \<Rightarrow> s
      | Some code \<Rightarrow> CHR 0x1B # ''['' @ code @ ''m'' @ s @ CHR 0x1B # ''[39m'')"

fun strip_escape :: "bool \<Rightarrow> string \<Rightarrow> string" where
  "strip_escape esc [] = []"
| "strip_escape True (c # cs) =
     (if c \<in> set ''[0123456789;'' then strip_escape True cs else strip_escape False cs)"
| "strip_escape False (c # cs) =
     (if c = CHR 0x1B then strip_escape True cs else c # strip_escape False cs)"

definition stripAnsi_basic :: "string \<Rightarrow> string" where
  "stripAnsi_basic s = strip_escape False s"

definition example_console :: ConsoleLogger where
  "example_console = \<lparr>threshold = 1, levels = LoggerMachine_levels, colors = ConsoleLogger_colors\<rparr>"

definition example_file :: FileLogger where
  "example_file = \<lparr>threshold = 1, levels = LoggerMachine_levels, colors = ConsoleLogger_colors,
                     stream = ''out.log'', eol = [CHR 0x0A]\<rparr>"

definition example_error :: Error where
  "example_error = \<lparr>name = ''Error'', message = ''boom'', stack = None\<rparr>"

section \<open>Auxiliary facts\<close>

lemma rpad_eq: "rpad s n = s @ replicate (n - length s) CHR '' ''"
proof (induction s n rule: rpad.induct)
  case (1 subject len)
  show ?case
  proof (cases "length subject < len")
    case True
    then have "len - length subject = Suc (len - length (subject @ '' ''))" by simp
    with True 1 show ?thesis
      by (subst rpad.simps) (simp add: replicate_app_Cons_same)
  next
    case False
    then show ?thesis by (subst rpad.simps) simp
  qed
qed

lemma longest_std: "getLongestValue LoggerMachine_levels = ''verbose''"
  by (simp add: getLongestValue_def LoggerMachine_levels_def)

lemma length_toUpperCase: "length (toUpperCase s) = length s"
  by (simp add: toUpperCase_def)

lemma levelTag_std:
  "levels this = LoggerMachine_levels \<Longrightarrow>
   levelTag this l = ''('' @ toUpperCase l @ '') '' @ replicate (7 - length l) CHR '' ''"
  by (simp add: levelTag_def longest_std rpad_eq length_toUpperCase)

lemma LoggerMachine_new_eq:
  "LoggerMachine_new opts =
     Inr \<lparr>threshold = indexOf LoggerMachine_levels (toLowerCase (level opts)),
          levels = LoggerMachine_levels\<rparr>"
  by (simp add: LoggerMachine_new_def getLevelNumber_def)

lemma ConsoleLogger_new_eq:
  "ConsoleLogger_new opts =
     Inr \<lparr>threshold = indexOf LoggerMachine_levels (toLowerCase (level opts)),
          levels = LoggerMachine_levels, colors = ConsoleLogger_colors\<rparr>"
  by (simp add: ConsoleLogger_new_def LoggerMachine_new_eq)

lemma indexOf_from_absent: "x \<notin> set xs \<Longrightarrow> indexOf_from xs x i = - 1"
  by (induction xs arbitrary: i) auto

lemma indexOf_from_nth:
  "k < length xs \<Longrightarrow> distinct xs \<Longrightarrow> indexOf_from xs (xs ! k) i = i + int k"
proof (induction xs arbitrary: i k)
  case Nil
  then show ?case by simp
next
  case (Cons y ys)
  show ?case
  proof (cases k)
    case 0
    then show ?thesis by simp
  next
    case (Suc j)
    with Cons.prems have "j < length ys" "distinct ys" "ys ! j \<noteq> y"
      by auto
    with Cons.IH [of j "i + 1"] Suc show ?thesis by simp
  qed
qed

lemma std_rank:
  "levels this = LoggerMachine_levels \<Longrightarrow> getLevelNumber this ''warn'' = 1"
  "levels this = LoggerMachine_levels \<Longrightarrow> getLevelNumber this ''info'' = 2"
  "levels this = LoggerMachine_levels \<Longrightarrow> getLevelNumber this ''verbose'' = 3"
  "levels this = LoggerMachine_levels \<Longrightarrow> getLevelNumber this ''debug'' = 4"
  "levels this = LoggerMachine_levels \<Longrightarrow> getLevelNumber this ''silly'' = 5"
  "levels this = LoggerMachine_levels \<Longrightarrow> getLevelNumber this ''error'' = 0"
  by (simp_all add: getLevelNumber_def LoggerMachine_levels_def indexOf_def toLowerCase_def
      toLowerCase_char_def)

lemma leveled_rank:
  "(l, call) \<in> set leveled \<Longrightarrow> levels this = LoggerMachine_levels \<Longrightarrow>
   1 \<le> getLevelNumber this l \<and> getLevelNumber this l \<le> 5"
  by (auto simp: leveled_def std_rank)

lemma array_get_colors:
  "1 \<le> i \<Longrightarrow> i \<le> 5 \<Longrightarrow> array_get ConsoleLogger_colors i = Some (ConsoleLogger_colors ! nat i)"
  by (simp add: array_get_def ConsoleLogger_colors_def)

lemma leveled_call:
  "(l, call) \<in> set leveled \<Longrightarrow> call cls m st = reportMessage cls l m st"
  by (auto simp: leveled_def warn_def info_def verbose_def debug_def silly_def)

lemma console_leveled:
  "(l, call) \<in> set leveled \<Longrightarrow> levels c = LoggerMachine_levels \<Longrightarrow>
   colors c = ConsoleLogger_colors \<Longrightarrow>
   call (ConsoleLogger_class chalk) m (c, w) =
     (if getLevelNumber c l \<le> threshold c
      then Inr (c, emit (ConsoleLog (chalk ''yellow'' (timestamp w)
                  @ chalk (ConsoleLogger_colors ! nat (getLevelNumber c l)) (levelTag c l @ m))) w)
      else Inr (c, w))"
proof -
  assume mem: "(l, call) \<in> set leveled" and std: "levels c = LoggerMachine_levels"
    and col: "colors c = ConsoleLogger_colors"
  from std col leveled_rank [OF mem, of c]
  have "array_get (colors c) (getLevelNumber c l) =
        Some (ConsoleLogger_colors ! nat (getLevelNumber c l))"
    by (simp add: array_get_colors)
  then show ?thesis
    by (simp add: leveled_call [OF mem] reportMessage_def ConsoleLogger_class_def
        ConsoleLogger_formatMessage_def ConsoleLogger_logMessage_def)
qed

lemma levelTag_threshold [simp]: "levelTag (this\<lparr>threshold := t\<rparr>) l = levelTag this l"
  by (simp add: levelTag_def)

lemma FileLogger_new_eq:
  "FileLogger_new opts w =
     Inr (\<lparr>threshold = indexOf LoggerMachine_levels (toLowerCase (level opts)),
           levels = LoggerMachine_levels, colors = ConsoleLogger_colors,
           stream = logfile opts,
           eol = (case eol_opt opts of None \<Rightarrow> [CHR 0x0A] | Some s \<Rightarrow> s)\<rparr>,
          emit (StreamWrite (logfile opts) (case eol_opt opts of None \<Rightarrow> [CHR 0x0A] | Some s \<Rightarrow> s))
            (emit (CreateWriteStream (logfile opts)) w))"
  by (simp add: FileLogger_new_def ConsoleLogger_new_eq Let_def)

lemma indexOf_absent: "x \<notin> set xs \<Longrightarrow> indexOf xs x = - 1"
  by (simp add: indexOf_def indexOf_from_absent)

lemma file_leveled:
  "(l, call) \<in> set leveled \<Longrightarrow> levels f = LoggerMachine_levels \<Longrightarrow>
   colors f = ConsoleLogger_colors \<Longrightarrow>
   call (FileLogger_class chalk stripAnsi) m (f, w) =
     (if getLevelNumber f l \<le> threshold f
      then Inr (f, emit (StreamWrite (stream f)
                  (stripAnsi (chalk ''yellow'' (timestamp w)
                     @ chalk (ConsoleLogger_colors ! nat (getLevelNumber f l)) (levelTag f l @ m))
                   @ eol f))
                (emit (ConsoleLog (chalk ''yellow'' (timestamp w)
                  @ chalk (ConsoleLogger_colors ! nat (getLevelNumber f l)) (levelTag f l @ m))) w))
      else Inr (f, w))"
proof -
  assume mem: "(l, call) \<in> set leveled" and std: "levels f = LoggerMachine_levels"
    and col: "colors f = ConsoleLogger_colors"
  from std col leveled_rank [OF mem, of f]
  have "array_get (colors f) (getLevelNumber f l) =
        Some (ConsoleLogger_colors ! nat (getLevelNumber f l))"
    by (simp add: array_get_colors)
  then show ?thesis
    by (simp add: leveled_call [OF mem] reportMessage_def FileLogger_class_def
        ConsoleLogger_formatMessage_def ConsoleLogger_logMessage_def FileLogger_logMessage_def)
qed

lemma console_quiet:
  "(l, call) \<in> set leveled \<Longrightarrow> levels c = LoggerMachine_levels \<Longrightarrow>
   colors c = ConsoleLogger_colors \<Longrightarrow> threshold c < 1 \<Longrightarrow>
   call (ConsoleLogger_class chalk) m (c, w) = Inr (c, w)"
  using console_leveled [of l call c chalk m w] leveled_rank [of l call c] by simp

lemma file_quiet:
  "(l, call) \<in> set leveled \<Longrightarrow> levels f = LoggerMachine_levels \<Longrightarrow>
   colors f = ConsoleLogger_colors \<Longrightarrow> threshold f < 1 \<Longrightarrow>
   call (FileLogger_class chalk stripAnsi) m (f, w) = Inr (f, w)"
  using file_leveled [of l call f chalk stripAnsi m w] leveled_rank [of l call f] by simp

lemma console_error_eq:
  "error (ConsoleLogger_class chalk) err (c, w) =
     Inr (c, emit (ConsoleError (chalk ''yellow'' (timestamp w)
                  @ chalk ''red'' (levelTag c ''error'' @ string_of_optional (stack err)))) w)"
  by (simp add: error_def ConsoleLogger_class_def ConsoleLogger_formatError_def
      ConsoleLogger_logErrorMessage_def)

lemma file_error_eq:
  "error (FileLogger_class chalk stripAnsi) err (f, w) =
     Inr (f, emit (StreamWrite (stream f)
                  (stripAnsi (chalk ''yellow'' (timestamp w)
                     @ chalk ''red'' (levelTag f ''error'' @ string_of_optional (stack err))) @ eol f))
            (emit (ConsoleError (chalk ''yellow'' (timestamp w)
                  @ chalk ''red'' (levelTag f ''error'' @ string_of_optional (stack err)))) w))"
  by (simp add: error_def FileLogger_class_def ConsoleLogger_formatError_def
      ConsoleLogger_logErrorMessage_def FileLogger_logErrorMessage_def)

lemma readme_sink_trace:
  "FileLogger_logMessage_readme stripAnsi text (f, w) =
     Inr (f, w\<lparr>trace := trace w @ [ConsoleLog text,
                                     StreamWrite (stream f) (eol f @ stripAnsi text)]\<rparr>)"
  by (simp add: FileLogger_logMessage_readme_def ConsoleLogger_logMessage_def emit_def)

lemma file_content_append:
  "file_content p (xs @ ys) = file_content p xs @ file_content p ys"
  by (induction p xs rule: file_content.induct) simp_all

lemma emit_neq: "emit ev w \<noteq> w"
proof
  assume "emit ev w = w"
  then have "trace (emit ev w) = trace w" by simp
  then show False by (simp add: emit_def)
qed

lemma emit_inject: "emit ev w = emit ev' w \<Longrightarrow> ev = ev'"
proof -
  assume "emit ev w = emit ev' w"
  then have "trace (emit ev w) = trace (emit ev' w)" by simp
  then show ?thesis by (simp add: emit_def)
qed

lemma trace_emit: "trace (emit ev w) = trace w @ [ev]"
  by (simp add: emit_def)

lemma console_report:
  "reportMessage (ConsoleLogger_class chalk) l m (c, w) =
     (if getLevelNumber c l \<le> threshold c
      then (case ConsoleLogger_formatMessage chalk c l m w of
              Inl e \<Rightarrow> Inl e
            | Inr text \<Rightarrow> Inr (c, emit (ConsoleLog text) w))
      else Inr (c, w))"
  by (simp add: reportMessage_def ConsoleLogger_class_def ConsoleLogger_logMessage_def
      split: sum.splits)

lemma file_report:
  "reportMessage (FileLogger_class chalk stripAnsi) l m (f, w) =
     (if getLevelNumber f l \<le> threshold f
      then (case ConsoleLogger_formatMessage chalk f l m w of
              Inl e \<Rightarrow> Inl e
            | Inr text \<Rightarrow>
                Inr (f, emit (StreamWrite (stream f) (stripAnsi text @ eol f))
                          (emit (ConsoleLog text) w)))
      else Inr (f, w))"
  by (simp add: reportMessage_def FileLogger_class_def ConsoleLogger_logMessage_def
      FileLogger_logMessage_def split: sum.splits)

lemma console_frame:
  "(l, call) \<in> set leveled \<Longrightarrow>
   call (ConsoleLogger_class chalk) m (c, w) = Inr (c', w') \<Longrightarrow> c' = c"
  by (auto simp: leveled_call console_report split: if_splits sum.splits)

lemma file_frame:
  "(l, call) \<in> set leveled \<Longrightarrow>
   call (FileLogger_class chalk stripAnsi) m (f, w) = Inr (f', w') \<Longrightarrow> f' = f"
  by (auto simp: leveled_call file_report split: if_splits sum.splits)

lemma file_roundtrip:
  "(l, call) \<in> set leveled \<Longrightarrow>
   call (ConsoleLogger_class chalk) m (f, w) = Inr (f, emit (ConsoleLog line) w) \<Longrightarrow>
   \<exists>w'. call (FileLogger_class chalk stripAnsi) m (f, w) = Inr (f, w') \<and>
        file_content (stream f) (trace w') =
          file_content (stream f) (trace w) @ stripAnsi line @ eol f"
  by (auto simp: leveled_call console_report file_report trace_emit file_content_append
      emit_neq emit_neq [symmetric] split: if_splits sum.splits dest: emit_inject)

lemma file_sink_trace:
  "FileLogger_logMessage stripAnsi text (f, w) =
     Inr (f, w\<lparr>trace := trace w @ [ConsoleLog text,
                                     StreamWrite (stream f) (stripAnsi text @ eol f)]\<rparr>)"
  "FileLogger_logErrorMessage stripAnsi text (f, w) =
     Inr (f, w\<lparr>trace := trace w @ [ConsoleError text,
                                     StreamWrite (stream f) (stripAnsi text @ eol f)]\<rparr>)"
  by (simp_all add: FileLogger_logMessage_def FileLogger_logErrorMessage_def
      ConsoleLogger_logMessage_def ConsoleLogger_logErrorMessage_def emit_def)

lemma file_accepted:
  "(l, call) \<in> set leveled \<Longrightarrow> getLevelNumber f l \<le> threshold f \<Longrightarrow>
   ConsoleLogger_formatMessage chalk f l m w = Inr line \<Longrightarrow>
   call (FileLogger_class chalk stripAnsi) m (f, w) =
     Inr (f, w\<lparr>trace := trace w @ [ConsoleLog line,
                                     StreamWrite (stream f) (stripAnsi line @ eol f)]\<rparr>)"
  by (simp add: leveled_call file_report emit_def)

lemma console_formatMessage_std:
  "levels c = LoggerMachine_levels \<Longrightarrow> colors c = ConsoleLogger_colors \<Longrightarrow>
   l \<in> set LoggerMachine_levels \<Longrightarrow>
   \<exists>text. ConsoleLogger_formatMessage chalk c l m w = Inr text"
  by (auto simp: ConsoleLogger_formatMessage_def LoggerMachine_levels_def std_rank array_get_def
      ConsoleLogger_colors_def)

lemma formatError_value_object:
  "LoggerMachine_formatError_value this (JsObject err) w = LoggerMachine_formatError this err w"
  "ConsoleLogger_formatError_value chalk c (JsObject err) w = ConsoleLogger_formatError chalk c err w"
  by (simp_all add: LoggerMachine_formatError_value_def ConsoleLogger_formatError_value_def
      get_stack_def LoggerMachine_formatError_def ConsoleLogger_formatError_def)

lemma std_rank_of_label:
  "levels this = LoggerMachine_levels \<Longrightarrow> toLowerCase l \<in> set LoggerMachine_levels \<Longrightarrow>
   0 \<le> getLevelNumber this l \<and> getLevelNumber this l < 6"
proof -
  assume std: "levels this = LoggerMachine_levels"
    and mem: "toLowerCase l \<in> set LoggerMachine_levels"
  from mem obtain k where k: "k < length LoggerMachine_levels" "LoggerMachine_levels ! k = toLowerCase l"
    by (auto simp: in_set_conv_nth)
  have d: "distinct LoggerMachine_levels"
    by (simp add: LoggerMachine_levels_def)
  from indexOf_from_nth [OF k(1) d, of 0] k(2)
  have "getLevelNumber this l = int k"
    by (simp add: getLevelNumber_def std indexOf_def)
  with k(1) show ?thesis
    by (simp add: LoggerMachine_levels_def)
qed

lemma console_formatMessage_cases:
  "levels c = LoggerMachine_levels \<Longrightarrow> colors c = ConsoleLogger_colors \<Longrightarrow>
   ConsoleLogger_formatMessage chalk c l m w =
     (if toLowerCase l \<in> set LoggerMachine_levels
      then Inr (chalk ''yellow'' (timestamp w)
                @ chalk (ConsoleLogger_colors ! nat (getLevelNumber c l)) (levelTag c l @ m))
      else Inl TypeError)"
proof (cases "toLowerCase l \<in> set LoggerMachine_levels")
  case True
  assume std: "levels c = LoggerMachine_levels" and col: "colors c = ConsoleLogger_colors"
  from std_rank_of_label [OF std True]
  have "array_get ConsoleLogger_colors (getLevelNumber c l) =
        Some (ConsoleLogger_colors ! nat (getLevelNumber c l))"
    by (simp add: array_get_def ConsoleLogger_colors_def)
  with True col show ?thesis
    by (simp add: ConsoleLogger_formatMessage_def)
next
  case False
  assume std: "levels c = LoggerMachine_levels" and col: "colors c = ConsoleLogger_colors"
  from False std have "getLevelNumber c l = - 1"
    by (simp add: getLevelNumber_def indexOf_absent)
  with False show ?thesis
    by (simp add: ConsoleLogger_formatMessage_def array_get_def)
qed

lemma example_objects_constructed:
  "LoggerMachine_new \<lparr>level = ''warn''\<rparr> = Inr example_logger"
  "ConsoleLogger_new \<lparr>level = ''warn''\<rparr> = Inr example_console"
  "\<exists>w'. FileLogger_new \<lparr>level = ''warn'', logfile = ''out.log'', eol_opt = None\<rparr> example_world
         = Inr (example_file, w')"
  by (simp_all add: LoggerMachine_new_eq ConsoleLogger_new_eq FileLogger_new_eq indexOf_def
      LoggerMachine_levels_def toLowerCase_def toLowerCase_char_def example_logger_def
      example_console_def example_file_def)

section \<open>Properties\<close>

text \<open>
  C7.  For each of the six severity labels, \<open>levelTag\<close> is the upper-cased label in
  parentheses followed by spaces up to the common width 3 + the length of the
  longest label, which is 10: all six tags are equally wide.
\<close>

theorem levelTag_equal_width:
  "levels this = LoggerMachine_levels \<Longrightarrow> l \<in> set (levels this) \<Longrightarrow>
   levelTag this l = ''('' @ toUpperCase l @ '') '' @ replicate (7 - length l) CHR '' '' \<and>
   length (levelTag this l) = 3 + length (getLongestValue (levels this)) \<and>
   length (levelTag this l) = 10"
proof -
  assume std: "levels this = LoggerMachine_levels" and mem: "l \<in> set (levels this)"
  from mem std have "length l \<le> 7"
    by (auto simp: LoggerMachine_levels_def)
  then show ?thesis
    using std by (simp add: levelTag_std longest_std length_toUpperCase)
qed

theorem levelTag_equal_width_witness:
  "LoggerMachine_new \<lparr>level = ''warn''\<rparr> = Inr example_logger \<and>
   map (levelTag example_logger) (levels example_logger) =
     [''(ERROR)   '', ''(WARN)    '', ''(INFO)    '', ''(VERBOSE) '', ''(DEBUG)   '', ''(SILLY)   ''] \<and>
   length (levelTag example_logger ''info'') = 10"
proof -
  have std: "levels example_logger = LoggerMachine_levels"
    by (simp add: example_logger_def)
  have mem: "''info'' \<in> set (levels example_logger)"
    by (simp add: example_logger_def LoggerMachine_levels_def)
  have new: "LoggerMachine_new \<lparr>level = ''warn''\<rparr> = Inr example_logger"
    by code_simp
  have tags: "map (levelTag example_logger) (levels example_logger) =
     [''(ERROR)   '', ''(WARN)    '', ''(INFO)    '', ''(VERBOSE) '', ''(DEBUG)   '', ''(SILLY)   '']"
    by code_simp
  from levelTag_equal_width [OF std mem]
  have "length (levelTag example_logger ''info'') = 10" by blast
  with new tags show ?thesis by blast
qed

text \<open>
  C8.  The rank lookup numbers the labels 0 to 5 in their order of declaration
  (error, warn, info, verbose, debug, silly), and a label in any letter case gets
  the rank of its lower-cased form.
\<close>

theorem getLevelNumber_ranks:
  "levels this = LoggerMachine_levels \<Longrightarrow>
   map (getLevelNumber this) LoggerMachine_levels = [0, 1, 2, 3, 4, 5] \<and>
   (\<forall>s k. k < length LoggerMachine_levels \<and> toLowerCase s = LoggerMachine_levels ! k \<longrightarrow>
      getLevelNumber this s = int k)"
proof -
  assume std: "levels this = LoggerMachine_levels"
  have d: "distinct LoggerMachine_levels"
    by (simp add: LoggerMachine_levels_def)
  have ranks: "map (getLevelNumber this) LoggerMachine_levels = [0, 1, 2, 3, 4, 5]"
    unfolding getLevelNumber_def std
    by (simp add: LoggerMachine_levels_def indexOf_def toLowerCase_def toLowerCase_char_def)
  have "getLevelNumber this s = int k"
    if "k < length LoggerMachine_levels" "toLowerCase s = LoggerMachine_levels ! k" for s k
    using that indexOf_from_nth [OF that(1) d, of 0]
    by (simp add: getLevelNumber_def std indexOf_def)
  with ranks show ?thesis by blast
qed

theorem getLevelNumber_ranks_witness:
  "levels example_logger = LoggerMachine_levels \<and>
   toLowerCase ''VerBose'' = LoggerMachine_levels ! 3 \<and>
   getLevelNumber example_logger ''VerBose'' = 3"
proof -
  have std: "levels example_logger = LoggerMachine_levels"
    by (simp add: example_logger_def)
  have low: "toLowerCase ''VerBose'' = LoggerMachine_levels ! 3"
    by code_simp
  have len: "(3::nat) < length LoggerMachine_levels"
    by (simp add: LoggerMachine_levels_def)
  from getLevelNumber_ranks [OF std] len low
  have "getLevelNumber example_logger ''VerBose'' = int 3" by blast
  with std low show ?thesis by simp
qed

text \<open>
  C1.  Each of warn, info, verbose, debug and silly compares the rank of its severity
  with the threshold.  When the rank is at most the threshold the class's formatter
  runs and its text goes once to the class's message sink: with the formatter of the
  base class the text is timestamp, level tag and message, and on a console logger
  exactly one console line is written, the coloured form of that text.  When the
  rank is above the threshold the call returns with the object and the world as
  they were, and raises nothing.
\<close>

theorem leveled_call_triage:
  "(\<forall>(l, call) \<in> set leveled.
      call cls m (this, w) =
        (if getLevelNumber this l \<le> threshold this
         then (case formatMessage cls this l m w of
                 Inl e \<Rightarrow> Inl e
               | Inr text \<Rightarrow> logMessage cls text (this, w))
         else Inr (this, w))) \<and>
   (\<forall>(l, call) \<in> set leveled.
      call (cls\<lparr>formatMessage := LoggerMachine_formatMessage\<rparr>) m (this, w) =
        (if getLevelNumber this l \<le> threshold this
         then logMessage cls (timestamp w @ levelTag this l @ m) (this, w)
         else Inr (this, w))) \<and>
   (levels c = LoggerMachine_levels \<and> colors c = ConsoleLogger_colors \<longrightarrow>
    (\<forall>(l, call) \<in> set leveled.
      call (ConsoleLogger_class chalk) m (c, w) =
        (if getLevelNumber c l \<le> threshold c
         then Inr (c, emit (ConsoleLog (chalk ''yellow'' (timestamp w)
                     @ chalk (ConsoleLogger_colors ! nat (getLevelNumber c l)) (levelTag c l @ m))) w)
         else Inr (c, w))))"
proof (intro conjI impI)
  show "\<forall>(l, call) \<in> set leveled.
      call cls m (this, w) =
        (if getLevelNumber this l \<le> threshold this
         then (case formatMessage cls this l m w of
                 Inl e \<Rightarrow> Inl e
               | Inr text \<Rightarrow> logMessage cls text (this, w))
         else Inr (this, w))"
    by (auto simp: leveled_call reportMessage_def)
  show "\<forall>(l, call) \<in> set leveled.
      call (cls\<lparr>formatMessage := LoggerMachine_formatMessage\<rparr>) m (this, w) =
        (if getLevelNumber this l \<le> threshold this
         then logMessage cls (timestamp w @ levelTag this l @ m) (this, w)
         else Inr (this, w))"
    by (auto simp: leveled_call reportMessage_def LoggerMachine_formatMessage_def)
next
  assume "levels c = LoggerMachine_levels \<and> colors c = ConsoleLogger_colors"
  then show "\<forall>(l, call) \<in> set leveled.
      call (ConsoleLogger_class chalk) m (c, w) =
        (if getLevelNumber c l \<le> threshold c
         then Inr (c, emit (ConsoleLog (chalk ''yellow'' (timestamp w)
                     @ chalk (ConsoleLogger_colors ! nat (getLevelNumber c l)) (levelTag c l @ m))) w)
         else Inr (c, w))"
    using console_leveled [of _ _ c chalk m w] by fast
qed

theorem leveled_call_triage_witness:
  "warn (ConsoleLogger_class chalk_basic) ''heed'' (example_console, example_world) =
     Inr (example_console,
          example_world\<lparr>trace := [ConsoleLog (CHR 0x1B # ''[33m[2018-03-04T05:06:07.089Z] ''
             @ CHR 0x1B # ''[39m'' @ CHR 0x1B # ''[35m(WARN)    heed'' @ CHR 0x1B # ''[39m'')]\<rparr>) \<and>
   info (ConsoleLogger_class chalk_basic) ''heed'' (example_console, example_world) =
     Inr (example_console, example_world)"
proof -
  have std: "levels example_console = LoggerMachine_levels \<and>
             colors example_console = ConsoleLogger_colors"
    by (simp add: example_console_def)
  have mem: "(''warn'', warn) \<in> set leveled" "(''info'', info) \<in> set leveled"
    by (simp_all add: leveled_def)
  note triage = leveled_call_triage [where c = example_console and chalk = chalk_basic
      and m = "''heed''" and w = example_world]
  from triage std mem(1)
  have "warn (ConsoleLogger_class chalk_basic) ''heed'' (example_console, example_world) =
        (if getLevelNumber example_console ''warn'' \<le> threshold example_console
         then Inr (example_console, emit (ConsoleLog (chalk_basic ''yellow'' (timestamp example_world)
                @ chalk_basic (ConsoleLogger_colors ! nat (getLevelNumber example_console ''warn''))
                    (levelTag example_console ''warn'' @ ''heed''))) example_world)
         else Inr (example_console, example_world))"
    by fast
  also have "\<dots> = Inr (example_console,
          example_world\<lparr>trace := [ConsoleLog (CHR 0x1B # ''[33m[2018-03-04T05:06:07.089Z] ''
             @ CHR 0x1B # ''[39m'' @ CHR 0x1B # ''[35m(WARN)    heed'' @ CHR 0x1B # ''[39m'')]\<rparr>)"
    by code_simp
  finally have a: "warn (ConsoleLogger_class chalk_basic) ''heed'' (example_console, example_world) =
     Inr (example_console,
          example_world\<lparr>trace := [ConsoleLog (CHR 0x1B # ''[33m[2018-03-04T05:06:07.089Z] ''
             @ CHR 0x1B # ''[39m'' @ CHR 0x1B # ''[35m(WARN)    heed'' @ CHR 0x1B # ''[39m'')]\<rparr>)" .
  from triage std mem(2)
  have "info (ConsoleLogger_class chalk_basic) ''heed'' (example_console, example_world) =
        (if getLevelNumber example_console ''info'' \<le> threshold example_console
         then Inr (example_console, emit (ConsoleLog (chalk_basic ''yellow'' (timestamp example_world)
                @ chalk_basic (ConsoleLogger_colors ! nat (getLevelNumber example_console ''info''))
                    (levelTag example_console ''info'' @ ''heed''))) example_world)
         else Inr (example_console, example_world))"
    by fast
  also have "\<dots> = Inr (example_console, example_world)"
    by code_simp
  finally show ?thesis using a by simp
qed

text \<open>
  C2.  Whatever the threshold of the logger, \<open>error\<close> formats the error and hands the
  text once to the class's error sink; the threshold is never read.  On a console
  logger this is exactly one line on the error console, on a file logger that line
  and one write to the file.
\<close>

theorem error_bypasses_threshold:
  "error cls err (this\<lparr>threshold := t\<rparr>, w) =
     (case formatError cls (this\<lparr>threshold := t\<rparr>) err w of
        Inl e \<Rightarrow> Inl e
      | Inr text \<Rightarrow> logErrorMessage cls text (this\<lparr>threshold := t\<rparr>, w)) \<and>
   error (cls\<lparr>formatError := LoggerMachine_formatError\<rparr>) err (this\<lparr>threshold := t\<rparr>, w) =
     logErrorMessage cls (timestamp w @ levelTag this ''error'' @ string_of_optional (stack err))
       (this\<lparr>threshold := t\<rparr>, w) \<and>
   error (ConsoleLogger_class chalk) err (c\<lparr>threshold := t\<rparr>, w) =
     Inr (c\<lparr>threshold := t\<rparr>,
          emit (ConsoleError (chalk ''yellow'' (timestamp w)
                  @ chalk ''red'' (levelTag c ''error'' @ string_of_optional (stack err)))) w) \<and>
   error (FileLogger_class chalk stripAnsi) err (f\<lparr>threshold := t\<rparr>, w) =
     Inr (f\<lparr>threshold := t\<rparr>,
          emit (StreamWrite (stream f)
                  (stripAnsi (chalk ''yellow'' (timestamp w)
                     @ chalk ''red'' (levelTag f ''error'' @ string_of_optional (stack err))) @ eol f))
            (emit (ConsoleError (chalk ''yellow'' (timestamp w)
                  @ chalk ''red'' (levelTag f ''error'' @ string_of_optional (stack err)))) w))"
  by (simp add: error_def LoggerMachine_formatError_def ConsoleLogger_class_def
      FileLogger_class_def ConsoleLogger_formatError_def ConsoleLogger_logErrorMessage_def
      FileLogger_logErrorMessage_def)

text \<open>
  C3.  As stated the claim fails: the constructor has no check of the label.  The
  label ''loud'' is none of the six, and constructing a console logger with it
  returns a logger, with threshold -1, and raises nothing.
\<close>

theorem unknown_label_rejected_counterexample:
  "ConsoleLogger_new \<lparr>level = ''loud''\<rparr> =
     Inr \<lparr>threshold = - 1, levels = LoggerMachine_levels, colors = ConsoleLogger_colors\<rparr> \<and>
   ConsoleLogger_new \<lparr>level = ''loud''\<rparr> \<noteq> Inl TypeError"
  by code_simp

text \<open>
  C3, amended.  For every label whose lower-casing is none of the six labels, each
  of the three constructors returns a logger and raises no error; the threshold of
  that logger is -1.
\<close>

theorem unknown_label_accepted:
  "toLowerCase lvl \<notin> set LoggerMachine_levels \<Longrightarrow>
   LoggerMachine_new \<lparr>level = lvl\<rparr> = Inr \<lparr>threshold = - 1, levels = LoggerMachine_levels\<rparr> \<and>
   ConsoleLogger_new \<lparr>level = lvl\<rparr> =
     Inr \<lparr>threshold = - 1, levels = LoggerMachine_levels, colors = ConsoleLogger_colors\<rparr> \<and>
   (\<exists>f w'. FileLogger_new \<lparr>level = lvl, logfile = p, eol_opt = e\<rparr> w = Inr (f, w') \<and>
            threshold f = - 1)"
  by (simp add: LoggerMachine_new_eq ConsoleLogger_new_eq FileLogger_new_eq indexOf_absent)

theorem unknown_label_accepted_witness:
  "toLowerCase ''Loud'' \<notin> set LoggerMachine_levels \<and>
   LoggerMachine_new \<lparr>level = ''Loud''\<rparr> = Inr \<lparr>threshold = - 1, levels = LoggerMachine_levels\<rparr>"
proof -
  have absent: "toLowerCase ''Loud'' \<notin> set LoggerMachine_levels"
    by code_simp
  from unknown_label_accepted [OF absent] absent show ?thesis by blast
qed

text \<open>
  C9.  A console or file logger constructed with a label that is none of the six
  is constructed without error and has threshold -1.  On it warn, info, verbose,
  debug and silly return with the object and the world unchanged, raising nothing,
  and \<open>error\<close> still writes its line.
\<close>

theorem unknown_label_silences_leveled_calls:
  "toLowerCase lvl \<notin> set LoggerMachine_levels \<Longrightarrow>
   (\<exists>c. ConsoleLogger_new \<lparr>level = lvl\<rparr> = Inr c \<and> threshold c = - 1 \<and>
      (\<forall>(l, call) \<in> set leveled. call (ConsoleLogger_class chalk) m (c, w) = Inr (c, w)) \<and>
      error (ConsoleLogger_class chalk) err (c, w) =
        Inr (c, emit (ConsoleError (chalk ''yellow'' (timestamp w)
                  @ chalk ''red'' (levelTag c ''error'' @ string_of_optional (stack err)))) w)) \<and>
   (\<exists>f w1. FileLogger_new \<lparr>level = lvl, logfile = p, eol_opt = e\<rparr> w0 = Inr (f, w1) \<and>
      threshold f = - 1 \<and>
      (\<forall>(l, call) \<in> set leveled.
         call (FileLogger_class chalk stripAnsi) m (f, w) = Inr (f, w)) \<and>
      error (FileLogger_class chalk stripAnsi) err (f, w) =
        Inr (f, emit (StreamWrite (stream f)
                  (stripAnsi (chalk ''yellow'' (timestamp w)
                     @ chalk ''red'' (levelTag f ''error'' @ string_of_optional (stack err))) @ eol f))
            (emit (ConsoleError (chalk ''yellow'' (timestamp w)
                  @ chalk ''red'' (levelTag f ''error'' @ string_of_optional (stack err)))) w)))"
proof -
  assume absent: "toLowerCase lvl \<notin> set LoggerMachine_levels"
  define c where "c = \<lparr>threshold = - 1, levels = LoggerMachine_levels, colors = ConsoleLogger_colors\<rparr>"
  define f where "f = \<lparr>threshold = - 1, levels = LoggerMachine_levels, colors = ConsoleLogger_colors,
      stream = p, eol = (case e of None \<Rightarrow> [CHR 0x0A] | Some s \<Rightarrow> s)\<rparr>"
  have newc: "ConsoleLogger_new \<lparr>level = lvl\<rparr> = Inr c"
    using absent by (simp add: ConsoleLogger_new_eq indexOf_absent c_def)
  have newf: "\<exists>w1. FileLogger_new \<lparr>level = lvl, logfile = p, eol_opt = e\<rparr> w0 = Inr (f, w1)"
    using absent by (simp add: FileLogger_new_eq indexOf_absent f_def)
  have quietc: "\<forall>(l, call) \<in> set leveled. call (ConsoleLogger_class chalk) m (c, w) = Inr (c, w)"
    by (auto intro!: console_quiet simp: c_def)
  have quietf: "\<forall>(l, call) \<in> set leveled.
      call (FileLogger_class chalk stripAnsi) m (f, w) = Inr (f, w)"
    by (auto intro!: file_quiet simp: f_def)
  have thc: "threshold c = - 1" and thf: "threshold f = - 1"
    by (simp_all add: c_def f_def)
  from newc thc quietc console_error_eq [of chalk err c w]
  have part1: "\<exists>c. ConsoleLogger_new \<lparr>level = lvl\<rparr> = Inr c \<and> threshold c = - 1 \<and>
      (\<forall>(l, call) \<in> set leveled. call (ConsoleLogger_class chalk) m (c, w) = Inr (c, w)) \<and>
      error (ConsoleLogger_class chalk) err (c, w) =
        Inr (c, emit (ConsoleError (chalk ''yellow'' (timestamp w)
                  @ chalk ''red'' (levelTag c ''error'' @ string_of_optional (stack err)))) w)"
    by blast
  from newf thf quietf file_error_eq [of chalk stripAnsi err f w]
  have part2: "\<exists>f w1. FileLogger_new \<lparr>level = lvl, logfile = p, eol_opt = e\<rparr> w0 = Inr (f, w1) \<and>
      threshold f = - 1 \<and>
      (\<forall>(l, call) \<in> set leveled.
         call (FileLogger_class chalk stripAnsi) m (f, w) = Inr (f, w)) \<and>
      error (FileLogger_class chalk stripAnsi) err (f, w) =
        Inr (f, emit (StreamWrite (stream f)
                  (stripAnsi (chalk ''yellow'' (timestamp w)
                     @ chalk ''red'' (levelTag f ''error'' @ string_of_optional (stack err))) @ eol f))
            (emit (ConsoleError (chalk ''yellow'' (timestamp w)
                  @ chalk ''red'' (levelTag f ''error'' @ string_of_optional (stack err)))) w))"
    by blast
  from part1 part2 show ?thesis by blast
qed


theorem unknown_label_silences_leveled_calls_witness:
  "toLowerCase ''Loud'' \<notin> set LoggerMachine_levels \<and>
   (\<exists>c. ConsoleLogger_new \<lparr>level = ''Loud''\<rparr> = Inr c \<and> threshold c = - 1 \<and>
      warn (ConsoleLogger_class chalk_basic) ''heed'' (c, example_world) = Inr (c, example_world) \<and>
      silly (ConsoleLogger_class chalk_basic) ''heed'' (c, example_world) = Inr (c, example_world))"
proof -
  have absent: "toLowerCase ''Loud'' \<notin> set LoggerMachine_levels"
    by code_simp
  have mem: "(''warn'', warn) \<in> set leveled" "(''silly'', silly) \<in> set leveled"
    by (simp_all add: leveled_def)
  from unknown_label_silences_leveled_calls [OF absent, where chalk = chalk_basic
      and m = "''heed''" and w = example_world]
  obtain c :: ConsoleLogger where c: "ConsoleLogger_new \<lparr>level = ''Loud''\<rparr> = Inr c"
      "threshold c = - 1"
      "\<forall>(l, call) \<in> set leveled.
         call (ConsoleLogger_class chalk_basic) ''heed'' (c, example_world) = Inr (c, example_world)"
    by blast
  from c(3) mem have "warn (ConsoleLogger_class chalk_basic) ''heed'' (c, example_world) = Inr (c, example_world)"
      "silly (ConsoleLogger_class chalk_basic) ''heed'' (c, example_world) = Inr (c, example_world)"
    by fast+
  with c(1,2) absent show ?thesis by blast
qed

text \<open>
  C10.  A call of error, warn, info, verbose, debug or silly on a console logger
  or on a file logger returns the object it was called on: threshold, label table
  and colour table, and on a file logger the line ending and the stream handle, are
  as they were before the call.
\<close>

theorem logging_leaves_configuration:
  "(error (ConsoleLogger_class chalk) err (c, w) = Inr (c', w') \<longrightarrow> c' = c) \<and>
   (\<forall>(l, call) \<in> set leveled.
      call (ConsoleLogger_class chalk) m (c, w) = Inr (c', w') \<longrightarrow> c' = c) \<and>
   (error (FileLogger_class chalk stripAnsi) err (f, w) = Inr (f', w') \<longrightarrow>
      f' = f \<and> threshold f' = threshold f \<and> levels f' = levels f \<and>
      eol f' = eol f \<and> stream f' = stream f) \<and>
   (\<forall>(l, call) \<in> set leveled.
      call (FileLogger_class chalk stripAnsi) m (f, w) = Inr (f', w') \<longrightarrow>
      f' = f \<and> threshold f' = threshold f \<and> levels f' = levels f \<and>
      eol f' = eol f \<and> stream f' = stream f)"
proof (intro conjI)
  show "error (ConsoleLogger_class chalk) err (c, w) = Inr (c', w') \<longrightarrow> c' = c"
    by (simp add: console_error_eq)
  show "\<forall>(l, call) \<in> set leveled.
      call (ConsoleLogger_class chalk) m (c, w) = Inr (c', w') \<longrightarrow> c' = c"
    using console_frame [of _ _ chalk m c w c' w'] by fast
  show "error (FileLogger_class chalk stripAnsi) err (f, w) = Inr (f', w') \<longrightarrow>
      f' = f \<and> threshold f' = threshold f \<and> levels f' = levels f \<and>
      eol f' = eol f \<and> stream f' = stream f"
    by (auto simp: file_error_eq)
  show "\<forall>(l, call) \<in> set leveled.
      call (FileLogger_class chalk stripAnsi) m (f, w) = Inr (f', w') \<longrightarrow>
      f' = f \<and> threshold f' = threshold f \<and> levels f' = levels f \<and>
      eol f' = eol f \<and> stream f' = stream f"
    using file_frame [of _ _ chalk stripAnsi m f w f' w'] by fast
qed

theorem logging_leaves_configuration_witness:
  "\<exists>f' w'. warn (FileLogger_class chalk_basic stripAnsi_basic) ''heed'' (example_file, example_world)
       = Inr (f', w') \<and>
     f' = example_file \<and> threshold f' = 1 \<and> eol f' = [CHR 0x0A] \<and> stream f' = ''out.log''"
proof -
  obtain f' w' where run:
    "warn (FileLogger_class chalk_basic stripAnsi_basic) ''heed'' (example_file, example_world)
       = Inr (f', w')"
    by (cases "warn (FileLogger_class chalk_basic stripAnsi_basic) ''heed''
                 (example_file, example_world)")
       (simp_all add: warn_def file_report example_file_def LoggerMachine_levels_def
          ConsoleLogger_colors_def getLevelNumber_def indexOf_def toLowerCase_def
          toLowerCase_char_def ConsoleLogger_formatMessage_def array_get_def)
  have mem: "(''warn'', warn) \<in> set leveled"
    by (simp add: leveled_def)
  from logging_leaves_configuration [where f = example_file and f' = f' and w' = w'
      and chalk = chalk_basic and stripAnsi = stripAnsi_basic and m = "''heed''"
      and w = example_world] mem run
  have same: "f' = example_file"
    by fast
  then have "threshold f' = 1 \<and> eol f' = [CHR 0x0A] \<and> stream f' = ''out.log''"
    by (simp add: example_file_def)
  with run same show ?thesis by blast
qed

text \<open>
  C4.  When a call on a file logger is accepted, the text appended to the file is
  the console line of that call with the escape codes stripped, followed by the
  line ending: for the five leveled calls and for \<open>error\<close>.
\<close>

theorem file_line_is_stripped_console_line:
  "(\<forall>(l, call) \<in> set leveled.
      call (ConsoleLogger_class chalk) m (f, w) = Inr (f, emit (ConsoleLog line) w) \<longrightarrow>
      (\<exists>w'. call (FileLogger_class chalk stripAnsi) m (f, w) = Inr (f, w') \<and>
         file_content (stream f) (trace w') =
           file_content (stream f) (trace w) @ stripAnsi line @ eol f)) \<and>
   (error (ConsoleLogger_class chalk) err (f, w) = Inr (f, emit (ConsoleError line) w) \<longrightarrow>
      (\<exists>w'. error (FileLogger_class chalk stripAnsi) err (f, w) = Inr (f, w') \<and>
         file_content (stream f) (trace w') =
           file_content (stream f) (trace w) @ stripAnsi line @ eol f))"
proof (intro conjI impI)
  show "\<forall>(l, call) \<in> set leveled.
      call (ConsoleLogger_class chalk) m (f, w) = Inr (f, emit (ConsoleLog line) w) \<longrightarrow>
      (\<exists>w'. call (FileLogger_class chalk stripAnsi) m (f, w) = Inr (f, w') \<and>
         file_content (stream f) (trace w') =
           file_content (stream f) (trace w) @ stripAnsi line @ eol f)"
    using file_roundtrip [of _ _ chalk m f w line stripAnsi] by fast
next
  assume "error (ConsoleLogger_class chalk) err (f, w) = Inr (f, emit (ConsoleError line) w)"
  then have "line = chalk ''yellow'' (timestamp w)
      @ chalk ''red'' (levelTag f ''error'' @ string_of_optional (stack err))"
    by (auto simp: console_error_eq dest: emit_inject)
  then show "\<exists>w'. error (FileLogger_class chalk stripAnsi) err (f, w) = Inr (f, w') \<and>
         file_content (stream f) (trace w') =
           file_content (stream f) (trace w) @ stripAnsi line @ eol f"
    by (simp add: file_error_eq trace_emit file_content_append)
qed


theorem file_line_is_stripped_console_line_witness:
  "warn (ConsoleLogger_class chalk_basic) ''heed'' (example_file, example_world) =
     Inr (example_file, emit (ConsoleLog (CHR 0x1B # ''[33m[2018-03-04T05:06:07.089Z] ''
             @ CHR 0x1B # ''[39m'' @ CHR 0x1B # ''[35m(WARN)    heed'' @ CHR 0x1B # ''[39m''))
           example_world) \<and>
   (\<exists>w'. warn (FileLogger_class chalk_basic stripAnsi_basic) ''heed'' (example_file, example_world)
            = Inr (example_file, w') \<and>
         file_content ''out.log'' (trace w') =
           ''[2018-03-04T05:06:07.089Z] (WARN)    heed'' @ [CHR 0x0A])"
proof -
  let ?line = "CHR 0x1B # ''[33m[2018-03-04T05:06:07.089Z] ''
             @ CHR 0x1B # ''[39m'' @ CHR 0x1B # ''[35m(WARN)    heed'' @ CHR 0x1B # ''[39m''"
  have console: "warn (ConsoleLogger_class chalk_basic) ''heed'' (example_file, example_world) =
     Inr (example_file, emit (ConsoleLog ?line) example_world)"
    by code_simp
  have mem: "(''warn'', warn) \<in> set leveled"
    by (simp add: leveled_def)
  from file_line_is_stripped_console_line [where f = example_file and chalk = chalk_basic
      and stripAnsi = stripAnsi_basic and m = "''heed''" and w = example_world and line = ?line]
    mem console
  obtain w' where w':
    "warn (FileLogger_class chalk_basic stripAnsi_basic) ''heed'' (example_file, example_world)
       = Inr (example_file, w')"
    "file_content (stream example_file) (trace w') =
       file_content (stream example_file) (trace example_world)
         @ stripAnsi_basic ?line @ eol example_file"
    by fast
  have "stream example_file = ''out.log''"
    by (simp add: example_file_def)
  moreover have "file_content (stream example_file) (trace example_world)
         @ stripAnsi_basic ?line @ eol example_file =
       ''[2018-03-04T05:06:07.089Z] (WARN)    heed'' @ [CHR 0x0A]"
    by code_simp
  ultimately have "file_content ''out.log'' (trace w') =
       ''[2018-03-04T05:06:07.089Z] (WARN)    heed'' @ [CHR 0x0A]"
    using w'(2) by simp
  with console w'(1) show ?thesis by blast
qed

text \<open>
  C5.  As stated the claim fails, in both halves.  An error without stack text is
  formatted with the text ''undefined'' after the level tag; its message, ''boom'', is
  not used.  And formatting raises: both formatters raise a TypeError on
  \<^verbatim>\<open>undefined\<close> and \<^verbatim>\<open>null\<close>, which \<open>error\<close> passes on to its caller, and the
  message formatter of the console logger raises one at the level ''loud''.
\<close>

theorem formatError_fallback_counterexample:
  "LoggerMachine_formatError example_logger example_error example_world =
     Inr ''[2018-03-04T05:06:07.089Z] (ERROR)   undefined'' \<and>
   LoggerMachine_formatError example_logger example_error example_world \<noteq>
     Inr ''[2018-03-04T05:06:07.089Z] (ERROR)   boom'' \<and>
   stack example_error = None \<and> message example_error = ''boom'' \<and>
   error (ConsoleLogger_class chalk_basic) example_error (example_console, example_world) =
     Inr (example_console,
          example_world\<lparr>trace := [ConsoleError (CHR 0x1B # ''[33m[2018-03-04T05:06:07.089Z] ''
             @ CHR 0x1B # ''[39m'' @ CHR 0x1B # ''[31m(ERROR)   undefined'' @ CHR 0x1B # ''[39m'')]\<rparr>) \<and>
   LoggerMachine_formatError_value example_logger JsUndefined example_world = Inl TypeError \<and>
   ConsoleLogger_formatError_value chalk_basic example_console JsNull example_world = Inl TypeError \<and>
   error_value (ConsoleLogger_formatError_value chalk_basic) ConsoleLogger_logErrorMessage
     JsUndefined (example_console, example_world) = Inl TypeError \<and>
   ConsoleLogger_formatMessage chalk_basic example_console ''loud'' ''x'' example_world =
     Inl TypeError"
  by code_simp

text \<open>
  C5, amended.  For an input of \<open>error\<close> that is an object, the formatters append its
  stack text as it is: an absent stack text is written as ''undefined'', and the
  message of the error plays no part.  Formatting raises nothing for an object
  whose stack is text or absent, nor for any message at any of the six severities.
  It raises a TypeError, which \<open>error\<close> does not catch, when the input is
  \<^verbatim>\<open>undefined\<close> or \<^verbatim>\<open>null\<close>, and the message formatter of the console logger
  raises a TypeError exactly at the levels outside the six labels.
\<close>

theorem formatError_appends_stack:
  "LoggerMachine_formatError this err w =
     Inr (timestamp w @ levelTag this ''error''
          @ (case stack err of None \<Rightarrow> ''undefined'' | Some s \<Rightarrow> s)) \<and>
   ConsoleLogger_formatError chalk c err w =
     Inr (chalk ''yellow'' (timestamp w)
          @ chalk ''red'' (levelTag c ''error''
              @ (case stack err of None \<Rightarrow> ''undefined'' | Some s \<Rightarrow> s))) \<and>
   LoggerMachine_formatError this (err\<lparr>message := other\<rparr>) w =
     LoggerMachine_formatError this err w \<and>
   ConsoleLogger_formatError chalk c (err\<lparr>message := other\<rparr>) w =
     ConsoleLogger_formatError chalk c err w \<and>
   LoggerMachine_formatError_value this (JsObject err) w = LoggerMachine_formatError this err w \<and>
   ConsoleLogger_formatError_value chalk c (JsObject err) w =
     ConsoleLogger_formatError chalk c err w \<and>
   LoggerMachine_formatError_value this JsUndefined w = Inl TypeError \<and>
   LoggerMachine_formatError_value this JsNull w = Inl TypeError \<and>
   ConsoleLogger_formatError_value chalk c JsUndefined w = Inl TypeError \<and>
   ConsoleLogger_formatError_value chalk c JsNull w = Inl TypeError \<and>
   error_value (ConsoleLogger_formatError_value chalk) logErrorMessage_v JsUndefined (c, w) =
     Inl TypeError \<and>
   error_value (ConsoleLogger_formatError_value chalk) logErrorMessage_v JsNull (c, w) =
     Inl TypeError \<and>
   error_value (ConsoleLogger_formatError_value chalk) ConsoleLogger_logErrorMessage
       (JsObject err) (c, w) =
     error (ConsoleLogger_class chalk) err (c, w) \<and>
   LoggerMachine_formatMessage this l m w = Inr (timestamp w @ levelTag this l @ m) \<and>
   (levels c = LoggerMachine_levels \<and> colors c = ConsoleLogger_colors \<longrightarrow>
    (\<forall>l \<in> set LoggerMachine_levels. \<exists>text. ConsoleLogger_formatMessage chalk c l m w = Inr text) \<and>
    (\<forall>l. ConsoleLogger_formatMessage chalk c l m w =
       (if toLowerCase l \<in> set LoggerMachine_levels
        then Inr (chalk ''yellow'' (timestamp w)
                  @ chalk (ConsoleLogger_colors ! nat (getLevelNumber c l)) (levelTag c l @ m))
        else Inl TypeError)))"
proof -
  have typed: "LoggerMachine_formatError this err w =
     Inr (timestamp w @ levelTag this ''error''
          @ (case stack err of None \<Rightarrow> ''undefined'' | Some s \<Rightarrow> s))"
    "ConsoleLogger_formatError chalk c err w =
     Inr (chalk ''yellow'' (timestamp w)
          @ chalk ''red'' (levelTag c ''error''
              @ (case stack err of None \<Rightarrow> ''undefined'' | Some s \<Rightarrow> s)))"
    "LoggerMachine_formatError this (err\<lparr>message := other\<rparr>) w =
     LoggerMachine_formatError this err w"
    "ConsoleLogger_formatError chalk c (err\<lparr>message := other\<rparr>) w =
     ConsoleLogger_formatError chalk c err w"
    "LoggerMachine_formatMessage this l m w = Inr (timestamp w @ levelTag this l @ m)"
    by (simp_all add: LoggerMachine_formatError_def ConsoleLogger_formatError_def
        LoggerMachine_formatMessage_def string_of_optional_def)
  have raises: "LoggerMachine_formatError_value this JsUndefined w = Inl TypeError"
    "LoggerMachine_formatError_value this JsNull w = Inl TypeError"
    "ConsoleLogger_formatError_value chalk c JsUndefined w = Inl TypeError"
    "ConsoleLogger_formatError_value chalk c JsNull w = Inl TypeError"
    "error_value (ConsoleLogger_formatError_value chalk) logErrorMessage_v JsUndefined (c, w) =
       Inl TypeError"
    "error_value (ConsoleLogger_formatError_value chalk) logErrorMessage_v JsNull (c, w) =
       Inl TypeError"
    by (simp_all add: LoggerMachine_formatError_value_def ConsoleLogger_formatError_value_def
        error_value_def get_stack_def)
  have object: "error_value (ConsoleLogger_formatError_value chalk) ConsoleLogger_logErrorMessage
       (JsObject err) (c, w) = error (ConsoleLogger_class chalk) err (c, w)"
    by (simp add: error_value_def error_def formatError_value_object ConsoleLogger_class_def
        split: sum.splits)
  have levels_ok: "levels c = LoggerMachine_levels \<and> colors c = ConsoleLogger_colors \<longrightarrow>
    (\<forall>l \<in> set LoggerMachine_levels. \<exists>text. ConsoleLogger_formatMessage chalk c l m w = Inr text) \<and>
    (\<forall>l. ConsoleLogger_formatMessage chalk c l m w =
       (if toLowerCase l \<in> set LoggerMachine_levels
        then Inr (chalk ''yellow'' (timestamp w)
                  @ chalk (ConsoleLogger_colors ! nat (getLevelNumber c l)) (levelTag c l @ m))
        else Inl TypeError))"
    using console_formatMessage_std [of c _ chalk m w]
      console_formatMessage_cases [of c chalk _ m w]
    by blast
  show ?thesis
    by (intro conjI typed raises object levels_ok formatError_value_object)
qed

theorem formatError_appends_stack_witness:
  "levels example_console = LoggerMachine_levels \<and>
   colors example_console = ConsoleLogger_colors \<and>
   ''debug'' \<in> set LoggerMachine_levels \<and>
   (\<exists>text. ConsoleLogger_formatMessage chalk_basic example_console ''debug'' ''x'' example_world
      = Inr text) \<and>
   toLowerCase ''loud'' \<notin> set LoggerMachine_levels \<and>
   ConsoleLogger_formatMessage chalk_basic example_console ''loud'' ''x'' example_world =
     Inl TypeError"
proof -
  have std: "levels example_console = LoggerMachine_levels \<and>
             colors example_console = ConsoleLogger_colors"
    by (simp add: example_console_def)
  have mem: "''debug'' \<in> set LoggerMachine_levels"
    by (simp add: LoggerMachine_levels_def)
  have absent: "toLowerCase ''loud'' \<notin> set LoggerMachine_levels"
    by code_simp
  note fmt = formatError_appends_stack [where c = example_console and chalk = chalk_basic
      and m = "''x''" and w = example_world]
  from fmt std mem
  have ok: "\<exists>text. ConsoleLogger_formatMessage chalk_basic example_console ''debug'' ''x''
          example_world = Inr text"
    by fast
  from fmt std
  have "ConsoleLogger_formatMessage chalk_basic example_console ''loud'' ''x'' example_world =
       (if toLowerCase ''loud'' \<in> set LoggerMachine_levels
        then Inr (chalk_basic ''yellow'' (timestamp example_world)
                  @ chalk_basic (ConsoleLogger_colors ! nat (getLevelNumber example_console ''loud''))
                      (levelTag example_console ''loud'' @ ''x''))
        else Inl TypeError)"
    by fast
  with absent have "ConsoleLogger_formatMessage chalk_basic example_console ''loud'' ''x''
      example_world = Inl TypeError"
    by simp
  with std mem ok absent show ?thesis by blast
qed

text \<open>
  C6.  The two sinks of the file logger first write the coloured text to the
  console and then write once to the stream: the text with the escape codes
  stripped, and after it the line ending.  The line ending is the one given at
  construction, a newline when none is given.  A leveled call that is accepted
  makes exactly these two writes, in this order.
\<close>

theorem file_sink_console_then_file:
  "FileLogger_logMessage stripAnsi text (f, w) =
     Inr (f, w\<lparr>trace := trace w @ [ConsoleLog text,
                                     StreamWrite (stream f) (stripAnsi text @ eol f)]\<rparr>) \<and>
   FileLogger_logErrorMessage stripAnsi text (f, w) =
     Inr (f, w\<lparr>trace := trace w @ [ConsoleError text,
                                     StreamWrite (stream f) (stripAnsi text @ eol f)]\<rparr>) \<and>
   (\<exists>f0 w0. FileLogger_new \<lparr>level = lvl, logfile = p, eol_opt = None\<rparr> w = Inr (f0, w0) \<and>
       eol f0 = [CHR 0x0A] \<and> stream f0 = p) \<and>
   (\<exists>f0 w0. FileLogger_new \<lparr>level = lvl, logfile = p, eol_opt = Some e\<rparr> w = Inr (f0, w0) \<and>
       eol f0 = e \<and> stream f0 = p) \<and>
   (\<forall>(l, call) \<in> set leveled.
      getLevelNumber f l \<le> threshold f \<and> ConsoleLogger_formatMessage chalk f l m w = Inr line
      \<longrightarrow> call (FileLogger_class chalk stripAnsi) m (f, w) =
            Inr (f, w\<lparr>trace := trace w @ [ConsoleLog line,
                                            StreamWrite (stream f) (stripAnsi line @ eol f)]\<rparr>))"
  using file_accepted [of _ _ f chalk m w line stripAnsi]
  by (simp add: file_sink_trace FileLogger_new_eq) fast


theorem file_sink_console_then_file_witness:
  "getLevelNumber example_file ''warn'' \<le> threshold example_file \<and>
   warn (FileLogger_class chalk_basic stripAnsi_basic) ''heed'' (example_file, example_world) =
     Inr (example_file,
          example_world\<lparr>trace :=
            [ConsoleLog (CHR 0x1B # ''[33m[2018-03-04T05:06:07.089Z] ''
               @ CHR 0x1B # ''[39m'' @ CHR 0x1B # ''[35m(WARN)    heed'' @ CHR 0x1B # ''[39m''),
             StreamWrite ''out.log'' (''[2018-03-04T05:06:07.089Z] (WARN)    heed'' @ [CHR 0x0A])]\<rparr>)"
proof -
  let ?line = "CHR 0x1B # ''[33m[2018-03-04T05:06:07.089Z] ''
               @ CHR 0x1B # ''[39m'' @ CHR 0x1B # ''[35m(WARN)    heed'' @ CHR 0x1B # ''[39m''"
  have rank: "getLevelNumber example_file ''warn'' \<le> threshold example_file"
    by code_simp
  have fmt: "ConsoleLogger_formatMessage chalk_basic example_file ''warn'' ''heed'' example_world
      = Inr ?line"
    by code_simp
  have mem: "(''warn'', warn) \<in> set leveled"
    by (simp add: leveled_def)
  from file_sink_console_then_file [where f = example_file and chalk = chalk_basic
      and stripAnsi = stripAnsi_basic and m = "''heed''" and w = example_world and line = ?line]
    mem rank fmt
  have "warn (FileLogger_class chalk_basic stripAnsi_basic) ''heed'' (example_file, example_world) =
     Inr (example_file, example_world\<lparr>trace := trace example_world @
        [ConsoleLog ?line,
         StreamWrite (stream example_file) (stripAnsi_basic ?line @ eol example_file)]\<rparr>)"
    by fast
  also have "\<dots> = Inr (example_file,
          example_world\<lparr>trace :=
            [ConsoleLog ?line,
             StreamWrite ''out.log'' (''[2018-03-04T05:06:07.089Z] (WARN)    heed'' @ [CHR 0x0A])]\<rparr>)"
    by code_simp
  finally show ?thesis using rank by simp
qed

end
